theory Spec2Isabelle
  imports Main
begin

section \<open>Python values, exceptions and integer coercion\<close>

text \<open>
  The exceptions that the wrapper and the calls it makes can raise. A method of the
  wrapper returns \<open>py_error + 'r\<close>, with \<open>Inl\<close> for a raised exception.
\<close>

datatype py_error = TypeError | ValueError | KeyError | AttributeError | NetworkXError | IndexError

text \<open>
  The values handed to \<open>set_edge_type\<close> as \<open>new_val\<close>: integers, booleans, strings
  and \<open>None\<close>. Floats are left out.
\<close>

datatype py_value = PyInt int | PyBool bool | PyStr string | PyNone

definition is_space :: "char \<Rightarrow> bool" where
  "is_space c = (c \<in> set [CHR '' '', CHR 0x09, CHR 0x0A, CHR 0x0B, CHR 0x0C, CHR 0x0D,
                          CHR 0x1C, CHR 0x1D, CHR 0x1E, CHR 0x1F])"

definition strip :: "string \<Rightarrow> string" where
  "strip s = rev (dropWhile is_space (rev (dropWhile is_space s)))"

definition digit_of :: "char \<Rightarrow> nat option" where
  "digit_of c = (let k = (of_char c :: nat) in if 48 \<le> k \<and> k \<le> 57 then Some (k - 48) else None)"

text \<open>
  The digits of a decimal literal after its first digit: a single underscore may stand
  between two digits, nowhere else.
\<close>

fun int_digits :: "string \<Rightarrow> nat \<Rightarrow> nat option" where
  "int_digits [] acc = Some acc"
| "int_digits [c] acc = (case digit_of c of None \<Rightarrow> None | Some k \<Rightarrow> Some (10 * acc + k))"
| "int_digits (c # d # ds) acc =
     (if c = CHR ''_''
      then (case digit_of d of None \<Rightarrow> None | Some k \<Rightarrow> int_digits ds (10 * acc + k))
      else (case digit_of c of None \<Rightarrow> None | Some k \<Rightarrow> int_digits (d # ds) (10 * acc + k)))"

definition int_unsigned :: "string \<Rightarrow> nat option" where
  "int_unsigned s =
     (case s of [] \<Rightarrow> None
      | c # cs \<Rightarrow> (case digit_of c of None \<Rightarrow> None | Some k \<Rightarrow> int_digits cs k))"

text \<open>
  \<open>int(s)\<close> on a string, base 10: surrounding whitespace is dropped, one sign is
  allowed, then the digits follow. Anything else is a \<open>ValueError\<close>. The model reads
  ASCII text and has no bound on the number of digits.
\<close>

definition int_literal :: "string \<Rightarrow> int option" where
  "int_literal s =
     (case strip s of
        [] \<Rightarrow> None
      | c # cs \<Rightarrow>
          if c = CHR ''-'' then map_option (\<lambda>n. - int n) (int_unsigned cs)
          else if c = CHR ''+'' then map_option int (int_unsigned cs)
          else map_option int (int_unsigned (c # cs)))"

text \<open>
  The builtin \<open>int(new_val)\<close>: an integer is itself, a boolean is 0 or 1, a string is
  parsed (\<open>ValueError\<close> when it is no literal), \<open>None\<close> raises \<open>TypeError\<close>.
\<close>

fun py_int :: "py_value \<Rightarrow> py_error + int" where
  "py_int (PyInt n) = Inr n"
| "py_int (PyBool b) = Inr (if b then 1 else 0)"
| "py_int (PyStr s) = (case int_literal s of None \<Rightarrow> Inl ValueError | Some n \<Rightarrow> Inr n)"
| "py_int PyNone = Inl TypeError"

section \<open>The networkx graphs the wrapper is built from\<close>

text \<open>
  The class of a networkx graph object. \<open>MultiDiGraph\<close> inherits from both
  \<open>MultiGraph\<close> and \<open>DiGraph\<close>; all of them inherit from \<open>Graph\<close>.
\<close>

datatype graph_kind = Graph | DiGraph | MultiGraph | MultiDiGraph

definition isinstance_DiGraph :: "graph_kind \<Rightarrow> bool" where
  "isinstance_DiGraph k = (k = DiGraph \<or> k = MultiDiGraph)"

definition isinstance_MultiGraph :: "graph_kind \<Rightarrow> bool" where
  "isinstance_MultiGraph k = (k = MultiGraph \<or> k = MultiDiGraph)"

text \<open>
  A source graph: its class, its nodes in insertion order, and its edges, each with the
  value of its \<open>'type'\<close> attribute (\<open>None\<close> when the edge has no such attribute). An
  undirected edge is stored once, in the orientation \<open>edges()\<close> reports it.
\<close>

record 'a nx_graph =
  kind :: graph_kind
  nodes :: "'a list"
  edges :: "(('a \<times> 'a) \<times> int option) list"

text \<open>
  The line graph held by the wrapper: its nodes are edge identifiers (pairs of source
  nodes), each with the value of its \<open>'type'\<close> attribute, and its edges join two edge
  identifiers.
\<close>

type_synonym 'a edge_id = "'a \<times> 'a"

record 'a line_graph =
  lg_nodes :: "('a edge_id \<times> int option) list"
  lg_edges :: "('a edge_id \<times> 'a edge_id) list"

text \<open>All pairs of a list, earlier element first (\<open>itertools.combinations(xs, 2)\<close>).\<close>

fun combinations2 :: "'a list \<Rightarrow> ('a \<times> 'a) list" where
  "combinations2 [] = []"
| "combinations2 (x # xs) = map (Pair x) xs @ combinations2 xs"

text \<open>\<open>nx.complete_graph(n)\<close>: nodes \<open>0 .. n-1\<close>, an edge for every pair of them.\<close>

definition complete_graph :: "nat \<Rightarrow> nat nx_graph" where
  "complete_graph n =
     \<lparr>kind = Graph, nodes = [0..<n], edges = map (\<lambda>e. (e, None)) (combinations2 [0..<n])\<rparr>"

definition has_edge :: "'a nx_graph \<Rightarrow> 'a \<Rightarrow> 'a \<Rightarrow> bool" where
  "has_edge G u v = list_ex (\<lambda>(e, t). e = (u, v) \<or> e = (v, u)) (edges G)"

text \<open>
  \<open>nx.complement(G)\<close>: the same nodes, and an edge between two different nodes exactly
  when \<open>G\<close> has none.
\<close>

definition complement :: "'a nx_graph \<Rightarrow> 'a nx_graph" where
  "complement G =
     \<lparr>kind = kind G, nodes = nodes G,
      edges = map (\<lambda>e. (e, None))
                (filter (\<lambda>(n, n2). \<not> has_edge G n n2 \<and> n \<noteq> n2) (combinations2 (nodes G)))\<rparr>"

text \<open>\<open>nx.set_edge_attributes(G, v, 'type')\<close> with a scalar: every edge gets the value.\<close>

definition set_edge_attributes :: "'a nx_graph \<Rightarrow> int \<Rightarrow> 'a nx_graph" where
  "set_edge_attributes G v = G\<lparr>edges := map (\<lambda>(e, t). (e, Some v)) (edges G)\<rparr>"

text \<open>
  \<open>G.add_edge(u, v, type=t)\<close>: missing end points become nodes; an edge that exists
  has its attribute overwritten, a new edge is appended.
\<close>

definition add_node :: "'a \<Rightarrow> 'a list \<Rightarrow> 'a list" where
  "add_node u ns = (if u \<in> set ns then ns else ns @ [u])"

definition add_edge :: "'a nx_graph \<Rightarrow> 'a \<times> 'a \<Rightarrow> int \<Rightarrow> 'a nx_graph" where
  "add_edge G e t =
     G\<lparr>nodes := add_node (snd e) (add_node (fst e) (nodes G)),
       edges := (if has_edge G (fst e) (snd e)
                 then map (\<lambda>(e', t'). if e' = e \<or> e' = (snd e, fst e) then (e', Some t) else (e', t'))
                        (edges G)
                 else edges G @ [(e, Some t)])\<rparr>"

definition add_edges_from :: "'a nx_graph \<Rightarrow> ('a \<times> 'a) list \<Rightarrow> int \<Rightarrow> 'a nx_graph" where
  "add_edges_from G es t = foldl (\<lambda>H e. add_edge H e t) G es"

text \<open>\<open>nx.get_edge_attributes(G, 'type')\<close>: the items of the dictionary edge to value.\<close>

definition get_edge_attributes :: "'a nx_graph \<Rightarrow> (('a \<times> 'a) \<times> int) list" where
  "get_edge_attributes G = concat (map (\<lambda>(e, t). case t of None \<Rightarrow> [] | Some v \<Rightarrow> [(e, v)]) (edges G))"

text \<open>\<open>tuple(sorted(key))\<close> on a pair.\<close>

definition sorted_key :: "'a::linorder \<times> 'a \<Rightarrow> 'a \<times> 'a" where
  "sorted_key k = (if snd k < fst k then (snd k, fst k) else k)"

text \<open>
  The line graph transform of networkx, for an undirected graph: every edge is
  labelled by its sorted pair of end points (\<open>sorted_node\<close>: \<open>(u, v) if u <= v else
  (v, u)\<close>, the labels that the constructor's \<open>tuple(sorted(key))\<close> is written to
  meet); for each node \<open>u\<close> the edges
  at \<open>u\<close> form a clique; an edge that is alone at one of its end points is added as a
  node by itself. The edges of the line graph are collected in a set, so the order of its
  nodes is the library's choice; the model takes the order of collection.
\<close>

definition sorted_node :: "'a::linorder \<times> 'a \<Rightarrow> 'a \<times> 'a" where
  "sorted_node e = (if fst e \<le> snd e then e else (snd e, fst e))"

definition tuple_le :: "'a::linorder \<times> 'a \<Rightarrow> 'a \<times> 'a \<Rightarrow> bool" where
  "tuple_le a b = (fst a < fst b \<or> (fst a = fst b \<and> snd a \<le> snd b))"

definition sorted_edge :: "'a::linorder edge_id \<times> 'a edge_id \<Rightarrow> 'a edge_id \<times> 'a edge_id" where
  "sorted_edge p = (if tuple_le (fst p) (snd p) then p else (snd p, fst p))"

definition edges_at :: "'a nx_graph \<Rightarrow> 'a \<Rightarrow> ('a \<times> 'a) list" where
  "edges_at G u = filter (\<lambda>e. fst e = u \<or> snd e = u) (map fst (edges G))"

definition line_graph :: "'a::linorder nx_graph \<Rightarrow> 'a line_graph" where
  "line_graph G =
     (let cells = map (\<lambda>u. map sorted_node (edges_at G u)) (nodes G);
          alone = concat (filter (\<lambda>ns. length ns = 1) cells);
          es = remdups (concat (map (\<lambda>ns. map sorted_edge (combinations2 ns)) cells));
          ns = remdups (alone @ concat (map (\<lambda>(a, b). [a, b]) es))
      in \<lparr>lg_nodes = map (\<lambda>n. (n, None)) ns, lg_edges = es\<rparr>)"

text \<open>
  \<open>nx.set_node_attributes(L, values, 'type')\<close>: with a scalar every node gets the value;
  with a dictionary each of its keys that is a node gets its value, and a key that is
  no node is skipped.
\<close>

definition set_node_attributes_scalar :: "'a line_graph \<Rightarrow> int \<Rightarrow> 'a line_graph" where
  "set_node_attributes_scalar L v = L\<lparr>lg_nodes := map (\<lambda>(n, t). (n, Some v)) (lg_nodes L)\<rparr>"

definition set_type_attr :: "('a edge_id \<times> int option) list \<Rightarrow> 'a edge_id \<Rightarrow> int
    \<Rightarrow> ('a edge_id \<times> int option) list" where
  "set_type_attr ns n v = map (\<lambda>(m, t). if m = n then (m, Some v) else (m, t)) ns"

definition set_node_attributes_dict :: "'a line_graph \<Rightarrow> ('a edge_id \<times> int) list \<Rightarrow> 'a line_graph" where
  "set_node_attributes_dict L attr =
     L\<lparr>lg_nodes := foldl (\<lambda>ns (n, v). set_type_attr ns n v) (lg_nodes L) attr\<rparr>"

text \<open>
  \<open>L.neighbors(n)\<close> raises \<open>NetworkXError\<close> for a node that is not in the graph.
  \<open>L.degree\<close> counts the neighbours, a self loop twice.
\<close>

definition adj_in :: "('n \<times> 'n) list \<Rightarrow> 'n \<Rightarrow> 'n list" where
  "adj_in es n = concat (map (\<lambda>(a, b). if a = n then [b] else if b = n then [a] else []) es)"

definition adjacent :: "'a line_graph \<Rightarrow> 'a edge_id \<Rightarrow> 'a edge_id list" where
  "adjacent L n = adj_in (lg_edges L) n"

definition neighbors :: "'a line_graph \<Rightarrow> 'a edge_id \<Rightarrow> py_error + 'a edge_id list" where
  "neighbors L n = (if n \<in> fst ` set (lg_nodes L) then Inr (adjacent L n) else Inl NetworkXError)"

definition degree :: "'a line_graph \<Rightarrow> 'a edge_id \<Rightarrow> nat" where
  "degree L n = length (adjacent L n) + (if n \<in> set (adjacent L n) then 1 else 0)"

section \<open>The inverse line graph of networkx\<close>

text \<open>
  \<open>get_initial_dim\<close> is \<open>len(nx.inverse_line_graph(self._graph))\<close>. The library
  inverts a line graph with the algorithm of Roussopoulos: choose a starting cell (an
  edge, a triangle or the nodes of the odd triangles around the first edge), grow the
  partition of the edges into cliques from it, and return the graph whose nodes are the
  cells of the partition together with one singleton cell for every node that lies in
  one cell only. Where the library takes an arbitrary element or iterates a set, the
  model takes the first element and the order of collection. A line graph without nodes
  gives a graph of one node and a line graph of one node gives a single edge, as the
  current releases of the library do; older releases raise \<open>NetworkXError\<close> on both.
\<close>

datatype 'n root_node = Index nat | Tagged 'n nat | Cell "'n list"

record 'n root_graph =
  rg_nodes :: "'n root_node list"
  rg_edges :: "('n root_node \<times> 'n root_node) list"

definition triangles :: "'a line_graph \<Rightarrow> 'a edge_id \<times> 'a edge_id
    \<Rightarrow> py_error + ('a edge_id \<times> 'a edge_id \<times> 'a edge_id) list" where
  "triangles L e =
     (let u = fst e; v = snd e
      in if u \<notin> fst ` set (lg_nodes L) then Inl NetworkXError
         else if v \<notin> set (adjacent L u) then Inl NetworkXError
         else Inr (map (\<lambda>x. (u, v, x)) (filter (\<lambda>x. x \<in> set (adjacent L v)) (adjacent L u))))"

definition is_complete :: "('n \<times> 'n) list \<Rightarrow> 'n list \<Rightarrow> bool" where
  "is_complete es cell =
     list_all (\<lambda>u. list_all (\<lambda>v. u = v \<or> (u, v) \<in> set es \<or> (v, u) \<in> set es) cell) cell"

definition odd_triangle :: "'a line_graph \<Rightarrow> 'a edge_id \<times> 'a edge_id \<times> 'a edge_id \<Rightarrow> py_error + bool" where
  "odd_triangle L T =
     (case T of (a, b, c) \<Rightarrow>
        if \<not> list_all (\<lambda>u. u \<in> fst ` set (lg_nodes L)) [a, b, c] then Inl NetworkXError
        else if \<not> list_all (\<lambda>(x, y). x \<in> set (adjacent L y)) (combinations2 [a, b, c])
        then Inl NetworkXError
        else
          (let T_nbrs = concat (map (\<lambda>t. filter (\<lambda>v. v \<notin> set [a, b, c]) (adjacent L t)) [a, b, c])
           in Inr (list_ex (\<lambda>v. count_list T_nbrs v = 1 \<or> count_list T_nbrs v = 3) T_nbrs)))"

fun odd_triangles :: "'a line_graph \<Rightarrow> ('a edge_id \<times> 'a edge_id \<times> 'a edge_id) list
    \<Rightarrow> py_error + ('a edge_id \<times> 'a edge_id \<times> 'a edge_id) list" where
  "odd_triangles L [] = Inr []"
| "odd_triangles L (T # Ts) =
     (case odd_triangle L T of
        Inl x \<Rightarrow> Inl x
      | Inr b \<Rightarrow>
          (case odd_triangles L Ts of
             Inl x \<Rightarrow> Inl x
           | Inr r \<Rightarrow> Inr (if b then T # r else r)))"

definition triangle_count :: "'a line_graph \<Rightarrow> 'a edge_id \<times> 'a edge_id \<Rightarrow> nat" where
  "triangle_count L e = (case triangles L e of Inl x \<Rightarrow> 0 | Inr ts \<Rightarrow> length ts)"

function select_starting_cell :: "'a line_graph \<Rightarrow> 'a edge_id \<times> 'a edge_id \<Rightarrow> py_error + 'a edge_id list" where
  "select_starting_cell L e =
     (case triangles L e of
        Inl x \<Rightarrow> Inl x
      | Inr e_triangles \<Rightarrow>
          (let r = length e_triangles
           in if r = 0 then Inr [fst e, snd e]
              else if r = 1 then
                (case hd e_triangles of (a, b, c) \<Rightarrow>
                   (case triangles L (a, c) of
                      Inl x \<Rightarrow> Inl x
                    | Inr ac_edges \<Rightarrow>
                        (case triangles L (b, c) of
                           Inl x \<Rightarrow> Inl x
                         | Inr bc_edges \<Rightarrow>
                             if length ac_edges = 1
                             then (if length bc_edges = 1 then Inr [a, b, c]
                                   else select_starting_cell L (b, c))
                             else select_starting_cell L (a, c))))
              else
                (case odd_triangles L e_triangles of
                   Inl x \<Rightarrow> Inl x
                 | Inr odds \<Rightarrow>
                     (let s = length odds
                      in if r = 2 \<and> s = 0
                         then (case last e_triangles of (a, b, c) \<Rightarrow> Inr [a, b, c])
                         else if r - 1 \<le> s \<and> s \<le> r then
                           (let triangle_nodes = remdups (concat (map (\<lambda>(a, b, c). [a, b, c]) odds))
                            in if is_complete (lg_edges L) triangle_nodes then Inr triangle_nodes
                               else Inl NetworkXError)
                         else Inl NetworkXError))))"
  by pat_completeness auto
termination
  by (relation "measure (\<lambda>(L, e). if triangle_count L e = 1 then 1 else 0)")
     (auto simp: triangle_count_def)

definition remove_edges_from :: "('n \<times> 'n) list \<Rightarrow> ('n \<times> 'n) list \<Rightarrow> ('n \<times> 'n) list" where
  "remove_edges_from es rs = filter (\<lambda>(a, b). (a, b) \<notin> set rs \<and> (b, a) \<notin> set rs) es"

function find_partition :: "('n \<times> 'n) list \<Rightarrow> 'n list list \<Rightarrow> 'n list \<Rightarrow> py_error + 'n list list" where
  "find_partition es P partitioned_vertices =
     (if es = [] then Inr P
      else if partitioned_vertices = [] then Inl IndexError
      else
        (let u = last partitioned_vertices;
             rest = butlast partitioned_vertices
         in if adj_in es u = [] then find_partition es P rest
            else
              (let new_cell = u # adj_in es u
               in if \<not> is_complete es new_cell then Inl NetworkXError
                  else find_partition (remove_edges_from es (combinations2 new_cell))
                         (P @ [new_cell]) (rest @ new_cell))))"
  by pat_completeness auto
termination
proof -
  have adj: "set (adj_in es n) = {x. (n, x) \<in> set es \<or> (x, n) \<in> set es}"
    for es :: "('n \<times> 'n) list" and n
  proof (induction es)
    case Nil
    then show ?case by (simp add: adj_in_def)
  next
    case (Cons p es)
    obtain a b where p: "p = (a, b)" by (cases p)
    have "adj_in (p # es) n = (if a = n then [b] else if b = n then [a] else []) @ adj_in es n"
      by (simp add: adj_in_def p)
    with Cons p show ?case by auto
  qed
  have less: "length (remove_edges_from es (combinations2 (u # adj_in es u))) < length es"
    if "adj_in es u \<noteq> []" for es :: "('n \<times> 'n) list" and u
  proof -
    let ?rs = "combinations2 (u # adj_in es u)"
    from that obtain x where x: "x \<in> set (adj_in es u)"
      by (cases "adj_in es u") auto
    then have rs: "(u, x) \<in> set ?rs" by simp
    from x have e: "(u, x) \<in> set es \<or> (x, u) \<in> set es" by (simp add: adj)
    have "\<exists>p \<in> set es. \<not> (case p of (a, b) \<Rightarrow> (a, b) \<notin> set ?rs \<and> (b, a) \<notin> set ?rs)"
    proof (cases "(u, x) \<in> set es")
      case True
      with rs show ?thesis
        by (intro bexI [of _ "(u, x)"]) (simp_all del: combinations2.simps)
    next
      case False
      with e have "(x, u) \<in> set es" by simp
      with rs show ?thesis
        by (intro bexI [of _ "(x, u)"]) (simp_all del: combinations2.simps)
    qed
    then obtain p where "p \<in> set es"
      and "\<not> (case p of (a, b) \<Rightarrow> (a, b) \<notin> set ?rs \<and> (b, a) \<notin> set ?rs)" by blast
    then show ?thesis
      unfolding remove_edges_from_def by (rule length_filter_less)
  qed
  show ?thesis
    by (relation "measures [\<lambda>(es, P, pv). length es, \<lambda>(es, P, pv). length pv]")
       (auto simp: less simp del: combinations2.simps)
qed

definition inverse_line_graph :: "'a line_graph \<Rightarrow> py_error + ('a edge_id) root_graph" where
  "inverse_line_graph L =
     (if length (lg_nodes L) = 0 then Inr \<lparr>rg_nodes = [Index 0], rg_edges = []\<rparr>
      else if length (lg_nodes L) = 1
      then (let v = fst (hd (lg_nodes L))
            in Inr \<lparr>rg_nodes = [Tagged v 0, Tagged v 1], rg_edges = [(Tagged v 0, Tagged v 1)]\<rparr>)
      else if length (lg_edges L) = 0 then Inl NetworkXError
      else if list_ex (\<lambda>(a, b). a = b) (lg_edges L) then Inl NetworkXError
      else
        (case select_starting_cell L (hd (lg_edges L)) of
           Inl x \<Rightarrow> Inl x
         | Inr starting_cell \<Rightarrow>
             (case find_partition (remove_edges_from (lg_edges L) (combinations2 starting_cell))
                     [starting_cell] starting_cell of
                Inl x \<Rightarrow> Inl x
              | Inr P \<Rightarrow>
                  (let P_count = map (\<lambda>u. (u, count_list (concat P) u)) (map fst (lg_nodes L))
                   in if Max (set (map snd P_count)) > 2 then Inl NetworkXError
                      else
                        (let W = map (\<lambda>(u, c). [u]) (filter (\<lambda>(u, c). c = 1) P_count);
                             H_nodes = remdups (map Cell (P @ W))
                         in Inr \<lparr>rg_nodes = H_nodes,
                                 rg_edges = filter (\<lambda>(a, b). case (a, b) of
                                      (Cell x, Cell y) \<Rightarrow> list_ex (\<lambda>a_bit. a_bit \<in> set y) x
                                    | _ \<Rightarrow> False) (combinations2 H_nodes)\<rparr>)))))"


section \<open>GraphWrapper\<close>

text \<open>The object: its one field \<open>_graph\<close>, which is \<open>None\<close> or the line graph.\<close>

record 'a GraphWrapper =
  graph :: "'a line_graph option"

text \<open>
  \<open>__init__(dim, gr)\<close>. Node labels are natural numbers, as \<open>complete_graph\<close> makes
  them; \<open>dim\<close> is a node count.
\<close>

definition GraphWrapper_init :: "nat option \<Rightarrow> nat nx_graph option \<Rightarrow> py_error + nat GraphWrapper" where
  "GraphWrapper_init dim gr =
     (case dim of
        None \<Rightarrow> Inr \<lparr>graph = None\<rparr>
      | Some d \<Rightarrow>
          (case gr of
             None \<Rightarrow> Inr \<lparr>graph = Some (set_node_attributes_scalar (line_graph (complete_graph d)) 0)\<rparr>
           | Some g \<Rightarrow>
               if isinstance_DiGraph (kind g) \<or> isinstance_MultiGraph (kind g) then Inl TypeError
               else
                 (let compl_graph = complement g;
                      g1 = set_edge_attributes g 1;
                      g2 = add_edges_from g1 (map fst (edges compl_graph)) 0;
                      attr = map (\<lambda>(key, val). (sorted_key key, val)) (get_edge_attributes g2)
                  in Inr \<lparr>graph = Some (set_node_attributes_dict (line_graph g2) attr)\<rparr>)))"

definition get_elements :: "'a GraphWrapper \<Rightarrow> py_error + 'a edge_id list" where
  "get_elements self =
     (case graph self of None \<Rightarrow> Inl AttributeError | Some L \<Rightarrow> Inr (map fst (lg_nodes L)))"

definition get_edge_type :: "'a GraphWrapper \<Rightarrow> 'a edge_id \<Rightarrow> py_error + int" where
  "get_edge_type self edge_id =
     (case graph self of
        None \<Rightarrow> Inl AttributeError
      | Some L \<Rightarrow>
          (case map_of (lg_nodes L) edge_id of
             None \<Rightarrow> Inl KeyError
           | Some None \<Rightarrow> Inl KeyError
           | Some (Some t) \<Rightarrow> Inr t))"

definition get_particle :: "'a GraphWrapper \<Rightarrow> 'a edge_id \<Rightarrow> py_error + int" where
  "get_particle self ident = get_edge_type self ident"

definition is_active_edge :: "'a GraphWrapper \<Rightarrow> 'a edge_id \<Rightarrow> py_error + bool" where
  "is_active_edge self edge_id =
     (case get_edge_type self edge_id of Inl x \<Rightarrow> Inl x | Inr t \<Rightarrow> Inr (t = 1))"

text \<open>
  The comprehension \<open>[e for e in xs if self.is_active_edge(e)]\<close>: the first exception
  of the test ends it.
\<close>

fun active_of :: "'a GraphWrapper \<Rightarrow> 'a edge_id list \<Rightarrow> py_error + 'a edge_id list" where
  "active_of self [] = Inr []"
| "active_of self (e # es) =
     (case is_active_edge self e of
        Inl x \<Rightarrow> Inl x
      | Inr b \<Rightarrow>
          (case active_of self es of
             Inl x \<Rightarrow> Inl x
           | Inr r \<Rightarrow> Inr (if b then e # r else r)))"

definition get_active_edges :: "'a GraphWrapper \<Rightarrow> py_error + 'a edge_id list" where
  "get_active_edges self =
     (case get_elements self of Inl x \<Rightarrow> Inl x | Inr es \<Rightarrow> active_of self es)"

text \<open>
  \<open>set_edge_type\<close> returns the object after the call together with the outcome: a raised
  exception leaves the object as the statements before the raise made it.
\<close>

definition set_edge_type :: "'a GraphWrapper \<Rightarrow> 'a edge_id \<Rightarrow> py_value
    \<Rightarrow> 'a GraphWrapper \<times> (py_error + unit)" where
  "set_edge_type self edge_id new_val =
     (case py_int new_val of
        Inl x \<Rightarrow> (self, Inl (if x = ValueError then TypeError else x))
      | Inr val \<Rightarrow>
          (case graph self of
             None \<Rightarrow> (self, Inl AttributeError)
           | Some L \<Rightarrow>
               if edge_id \<in> fst ` set (lg_nodes L)
               then (self\<lparr>graph := Some (L\<lparr>lg_nodes := set_type_attr (lg_nodes L) edge_id val\<rparr>)\<rparr>,
                     Inr ())
               else (self, Inl KeyError)))"

definition set_particle :: "'a GraphWrapper \<Rightarrow> 'a edge_id \<Rightarrow> py_value
    \<Rightarrow> 'a GraphWrapper \<times> (py_error + unit)" where
  "set_particle self ident new_val = set_edge_type self ident new_val"


text \<open>
  \<open>get_none_edge_count\<close> and \<open>get_edge_count\<close> count the nodes whose \<open>'type'\<close> is 0 and 1
  among the nodes that have the attribute.
\<close>

definition get_node_attributes :: "'a line_graph \<Rightarrow> ('a edge_id \<times> int) list" where
  "get_node_attributes L = concat (map (\<lambda>(n, t). case t of None \<Rightarrow> [] | Some v \<Rightarrow> [(n, v)]) (lg_nodes L))"

definition get_none_edge_count :: "'a GraphWrapper \<Rightarrow> py_error + nat" where
  "get_none_edge_count self =
     (case graph self of
        None \<Rightarrow> Inl AttributeError
      | Some L \<Rightarrow> Inr (length (filter (\<lambda>e. e = 0) (map snd (get_node_attributes L)))))"

definition get_edge_count :: "'a GraphWrapper \<Rightarrow> py_error + nat" where
  "get_edge_count self =
     (case graph self of
        None \<Rightarrow> Inl AttributeError
      | Some L \<Rightarrow> Inr (length (filter (\<lambda>e. e = 1) (map snd (get_node_attributes L)))))"

text \<open>
  \<open>get_bridge_count\<close>: \<open>degrees\<close> is the \<open>dict_values\<close> view of the degrees of the active
  edges in the whole line graph. The expression \<open>degrees / 2\<close> divides that view, and a
  \<open>dict_values\<close> object has no division: it raises \<open>TypeError\<close> whatever the view
  holds, before \<open>sum\<close> is called.
\<close>

definition dict_values_truediv :: "nat list \<Rightarrow> int \<Rightarrow> py_error + nat list" where
  "dict_values_truediv degrees n = Inl TypeError"

definition get_bridge_count :: "'a GraphWrapper \<Rightarrow> 'b \<Rightarrow> py_error + nat" where
  "get_bridge_count self sample =
     (case get_active_edges self of
        Inl x \<Rightarrow> Inl x
      | Inr active_edges \<Rightarrow>
          (case graph self of
             None \<Rightarrow> Inl AttributeError
           | Some L \<Rightarrow>
               (let degrees = map (degree L) (remdups active_edges)
                in case dict_values_truediv degrees 2 of
                     Inl x \<Rightarrow> Inl x
                   | Inr halves \<Rightarrow> Inr (sum_list halves))))"

definition get_initial_dim :: "'a GraphWrapper \<Rightarrow> py_error + nat" where
  "get_initial_dim self =
     (case graph self of
        None \<Rightarrow> Inl AttributeError
      | Some L \<Rightarrow> (case inverse_line_graph L of Inl x \<Rightarrow> Inl x | Inr H \<Rightarrow> Inr (length (rg_nodes H))))"


section \<open>Inputs and call sequences\<close>


text \<open>
  A finite sequence of \<open>set_particle\<close> calls on one object; a call that raises is caught
  by the caller and the sequence goes on.
\<close>

definition set_calls :: "'a GraphWrapper \<Rightarrow> ('a edge_id \<times> py_value) list \<Rightarrow> 'a GraphWrapper" where
  "set_calls self calls = foldl (\<lambda>w (e, v). fst (set_particle w e v)) self calls"


text \<open>The path graph on three nodes and the index built from it.\<close>

definition path_graph_3 :: "nat nx_graph" where
  "path_graph_3 = \<lparr>kind = Graph, nodes = [0, 1, 2], edges = [((0, 1), None), ((1, 2), None)]\<rparr>"

definition path3_line_graph :: "nat line_graph" where
  "path3_line_graph =
     \<lparr>lg_nodes = [((0, 1), Some 1), ((0, 2), Some 0), ((1, 2), Some 1)],
      lg_edges = [((0, 1), (0, 2)), ((0, 1), (1, 2)), ((0, 2), (1, 2))]\<rparr>"

definition path3_index :: "nat GraphWrapper" where
  "path3_index = \<lparr>graph = Some path3_line_graph\<rparr>"

section \<open>Attribute updates\<close>

lemma map_fst_set_type_attr: "map fst (set_type_attr ns n v) = map fst ns"
  by (induction ns) (auto simp: set_type_attr_def)

lemma map_of_set_type_attr_other:
  "m \<noteq> n \<Longrightarrow> map_of (set_type_attr ns n v) m = map_of ns m"
  by (induction ns) (simp_all add: set_type_attr_def split: prod.splits)

lemma map_of_set_type_attr_same:
  "n \<in> fst ` set ns \<Longrightarrow> map_of (set_type_attr ns n v) n = Some (Some v)"
proof (induction ns)
  case Nil
  then show ?case by simp
next
  case (Cons p ns)
  obtain m t where p: "p = (m, t)" by (cases p)
  show ?case
  proof (cases "m = n")
    case True
    with p show ?thesis by (simp add: set_type_attr_def)
  next
    case False
    with Cons p have "map_of (set_type_attr ns n v) n = Some (Some v)" by auto
    with False p show ?thesis by (simp add: set_type_attr_def)
  qed
qed


lemma init_path3: "GraphWrapper_init (Some 10) (Some path_graph_3) = Inr path3_index"
  by (simp add: GraphWrapper_init_def path_graph_3_def path3_index_def path3_line_graph_def
      isinstance_DiGraph_def isinstance_MultiGraph_def complement_def has_edge_def
      set_edge_attributes_def add_edges_from_def add_edge_def add_node_def
      get_edge_attributes_def sorted_key_def line_graph_def edges_at_def sorted_node_def
      sorted_edge_def tuple_le_def set_node_attributes_dict_def set_type_attr_def Let_def)

lemma set_particle_graph:
  "graph self = Some L \<Longrightarrow>
   \<exists>L'. graph (fst (set_particle self e v)) = Some L' \<and> lg_edges L' = lg_edges L
       \<and> map fst (lg_nodes L') = map fst (lg_nodes L)"
  by (auto simp: set_particle_def set_edge_type_def map_fst_set_type_attr split: sum.splits)

lemma neighbors_cong:
  assumes "lg_edges L' = lg_edges L" and "map fst (lg_nodes L') = map fst (lg_nodes L)"
  shows "neighbors L' e = neighbors L e"
proof -
  from assms(2) have "set (map fst (lg_nodes L')) = set (map fst (lg_nodes L))" by simp
  then have "fst ` set (lg_nodes L') = fst ` set (lg_nodes L)" by simp
  with assms(1) show ?thesis by (simp add: neighbors_def adjacent_def)
qed

lemma set_calls_graph:
  "graph self = Some L \<Longrightarrow>
   \<exists>L'. graph (set_calls self calls) = Some L' \<and> lg_edges L' = lg_edges L
       \<and> map fst (lg_nodes L') = map fst (lg_nodes L)"
proof (induction calls arbitrary: self L)
  case Nil
  then show ?case by (simp add: set_calls_def)
next
  case (Cons c calls)
  obtain e v where c: "c = (e, v)" by (cases c)
  from set_particle_graph [OF Cons.prems, of e v] obtain L1 where
    L1: "graph (fst (set_particle self e v)) = Some L1" "lg_edges L1 = lg_edges L"
        "map fst (lg_nodes L1) = map fst (lg_nodes L)" by blast
  from Cons.IH [OF L1(1)] obtain L' where
    "graph (set_calls (fst (set_particle self e v)) calls) = Some L'"
    "lg_edges L' = lg_edges L1" "map fst (lg_nodes L') = map fst (lg_nodes L1)" by blast
  with L1 c show ?case by (simp add: set_calls_def)
qed

section \<open>Pairs, sorted labels and adjacency\<close>

lemma combinations2_subset:
  "(a, b) \<in> set (combinations2 xs) \<Longrightarrow> a \<in> set xs \<and> b \<in> set xs"
  by (induction xs) auto

lemma combinations2_distinct:
  "distinct xs \<Longrightarrow> (a, b) \<in> set (combinations2 xs) \<Longrightarrow> a \<noteq> b"
  by (induction xs) (auto dest: combinations2_subset)




lemma sorted_node_eq_iff:
  "sorted_node p = sorted_node q \<longleftrightarrow> q = p \<or> q = (snd p, fst p)"
  by (cases p; cases q) (auto simp: sorted_node_def)


lemma sorted_node_lt: "fst e \<noteq> snd e \<Longrightarrow> fst (sorted_node e) < snd (sorted_node e)"
  by (cases e) (auto simp: sorted_node_def)


lemma distinct_sorted_node_combinations2:
  "distinct xs \<Longrightarrow> distinct (map sorted_node (combinations2 xs))"
proof (induction xs)
  case Nil
  then show ?case by simp
next
  case (Cons x xs)
  then have d: "distinct (map sorted_node (combinations2 xs))" and nx: "x \<notin> set xs"
    and dx: "distinct xs" by simp_all
  have "inj_on (\<lambda>y. sorted_node (x, y)) (set xs)"
  proof (rule inj_onI)
    fix y z assume "y \<in> set xs" "z \<in> set xs" "sorted_node (x, y) = sorted_node (x, z)"
    with nx show "y = z" unfolding sorted_node_eq_iff by auto
  qed
  with dx have 1: "distinct (map (\<lambda>y. sorted_node (x, y)) xs)"
    by (simp add: distinct_map)
  have 2: "sorted_node (x, y) \<noteq> sorted_node q" if "y \<in> set xs" "q \<in> set (combinations2 xs)" for y q
  proof -
    obtain a b where q: "q = (a, b)" by (cases q)
    with that(2) have "a \<in> set xs" "b \<in> set xs" by (auto dest: combinations2_subset)
    with nx have "a \<noteq> x" "b \<noteq> x" by auto
    then show ?thesis unfolding sorted_node_eq_iff q by simp
  qed
  have 3: "set (map (\<lambda>y. sorted_node (x, y)) xs) \<inter> set (map sorted_node (combinations2 xs)) = {}"
  proof -
    have False if "z \<in> set (map (\<lambda>y. sorted_node (x, y)) xs)"
      and "z \<in> set (map sorted_node (combinations2 xs))" for z
    proof -
      from that(1) obtain y where y: "y \<in> set xs" "z = sorted_node (x, y)" by auto
      from that(2) obtain q where q: "q \<in> set (combinations2 xs)" "z = sorted_node q" by auto
      from 2 [OF y(1) q(1)] y(2) q(2) show False by simp
    qed
    then show ?thesis by blast
  qed
  have "map sorted_node (combinations2 (x # xs)) =
        map (\<lambda>y. sorted_node (x, y)) xs @ map sorted_node (combinations2 xs)"
    by (simp add: comp_def)
  with d 1 3 show ?case by (simp only: distinct_append)
qed


lemma sorted_edge_components:
  "{fst (sorted_edge p), snd (sorted_edge p)} = {fst p, snd p}"
  by (cases p) (auto simp: sorted_edge_def)


subsection \<open>The line graph transform\<close>














section \<open>Typed indices\<close>















section \<open>The index of a complete graph\<close>






section \<open>Adding the complement edges\<close>











section \<open>Source edges and complement edges\<close>







lemma sorted_node_cases: "sorted_node k = k \<or> sorted_node k = (snd k, fst k)"
  by (cases k) (simp add: sorted_node_def)







section \<open>The bridge count\<close>

text \<open>
  Claim C1. On the index built from the path graph on three nodes, whose two edges are
  active and whose third potential edge is inactive, the claim has \<open>get_bridge_count\<close>
  return 1. The code does not return: the active edges are \<open>(0,1)\<close> and \<open>(1,2)\<close>, their
  degrees in the line graph are 2 and 2 (the inactive edge \<open>(0,2)\<close> is counted), and
  the division of the \<open>dict_values\<close> view raises \<open>TypeError\<close>.
\<close>

theorem get_bridge_count_path3:
  "GraphWrapper_init (Some 10) (Some path_graph_3) = Inr path3_index
   \<and> get_active_edges path3_index = Inr [(0, 1), (1, 2)]
   \<and> map (degree path3_line_graph) [(0, 1), (1, 2)] = [2, 2]
   \<and> get_bridge_count path3_index sample = Inl TypeError"
  by (simp add: init_path3 path3_index_def path3_line_graph_def get_active_edges_def
      get_elements_def is_active_edge_def get_edge_type_def get_bridge_count_def
      dict_values_truediv_def degree_def adjacent_def adj_in_def)

section \<open>Assigning a type\<close>




text \<open>
  Claim C10. For an edge identifier present in the index and a value whose integer
  coercion succeeds with \<open>n\<close>, \<open>set_particle\<close> returns normally and \<open>get_particle\<close> then
  returns \<open>n\<close>, also when \<open>n\<close> is neither 0 nor 1.
\<close>

theorem set_get_roundtrip:
  assumes "graph self = Some L" and "e \<in> fst ` set (lg_nodes L)" and "py_int v = Inr n"
  shows "snd (set_particle self e v) = Inr ()
       \<and> get_particle (fst (set_particle self e v)) e = Inr n"
  using assms
  by (simp add: set_particle_def set_edge_type_def get_particle_def get_edge_type_def
      map_of_set_type_attr_same)

theorem set_get_roundtrip_witness:
  "graph path3_index = Some path3_line_graph
   \<and> (0, 1) \<in> fst ` set (lg_nodes path3_line_graph)
   \<and> py_int (PyStr '' -1_7 '') = Inr (- 17)
   \<and> snd (set_particle path3_index (0, 1) (PyStr '' -1_7 '')) = Inr ()
   \<and> get_particle (fst (set_particle path3_index (0, 1) (PyStr '' -1_7 ''))) (0, 1) = Inr (- 17)"
  using set_get_roundtrip [of path3_index path3_line_graph "(0, 1)" "PyStr '' -1_7 ''" "- 17"]
  by (simp add: path3_index_def path3_line_graph_def int_literal_def strip_def is_space_def
      int_unsigned_def digit_of_def)

section \<open>Adjacency under mutation\<close>

text \<open>
  Claim C6. After any finite sequence of \<open>set_particle\<close> calls on an index, the line
  graph has the same nodes in the same order and the same edges, and \<open>neighbors\<close>
  returns for every edge identifier what it returned before.
\<close>

theorem adjacency_immutable:
  assumes "graph self = Some L"
  shows "\<exists>L'. graph (set_calls self calls) = Some L'
        \<and> lg_edges L' = lg_edges L \<and> map fst (lg_nodes L') = map fst (lg_nodes L)
        \<and> (\<forall>e. neighbors L' e = neighbors L e)"
  using set_calls_graph [OF assms, of calls] neighbors_cong by blast

theorem adjacency_immutable_witness:
  "graph path3_index = Some path3_line_graph
   \<and> (\<exists>L'. graph (set_calls path3_index [((0, 2), PyInt 1), ((5, 6), PyInt 1), ((0, 1), PyNone)])
               = Some L'
        \<and> lg_edges L' = lg_edges path3_line_graph
        \<and> map fst (lg_nodes L') = map fst (lg_nodes path3_line_graph)
        \<and> (\<forall>e. neighbors L' e = neighbors path3_line_graph e))"
  using adjacency_immutable [of path3_index path3_line_graph
      "[((0, 2), PyInt 1), ((5, 6), PyInt 1), ((0, 1), PyNone)]"]
  by (simp add: path3_index_def)

text \<open>
  Claim C7. When the type of an edge identifier is 0, \<open>set_particle\<close> with the value 1
  returns normally; afterwards the type of that identifier is 1, the type of every other
  identifier is what it was (an absent identifier stays absent), and the nodes, the
  edges and every adjacency list of the line graph are unchanged.
\<close>

theorem flip_isolated:
  assumes "graph self = Some L" and "get_particle self e = Inr 0"
  shows "\<exists>L'. set_particle self e (PyInt 1) = (self\<lparr>graph := Some L'\<rparr>, Inr ())
       \<and> get_particle (self\<lparr>graph := Some L'\<rparr>) e = Inr 1
       \<and> (\<forall>e'. e' \<noteq> e \<longrightarrow> get_particle (self\<lparr>graph := Some L'\<rparr>) e' = get_particle self e')
       \<and> lg_edges L' = lg_edges L \<and> map fst (lg_nodes L') = map fst (lg_nodes L)
       \<and> (\<forall>e'. neighbors L' e' = neighbors L e')"
proof -
  from assms have mem: "e \<in> fst ` set (lg_nodes L)"
    by (auto simp: get_particle_def get_edge_type_def split: option.splits
        dest!: map_of_SomeD intro: rev_image_eqI)
  let ?L' = "L\<lparr>lg_nodes := set_type_attr (lg_nodes L) e 1\<rparr>"
  have 1: "set_particle self e (PyInt 1) = (self\<lparr>graph := Some ?L'\<rparr>, Inr ())"
    using assms(1) mem by (simp add: set_particle_def set_edge_type_def)
  have 2: "get_particle (self\<lparr>graph := Some ?L'\<rparr>) e = Inr 1"
    using mem by (simp add: get_particle_def get_edge_type_def map_of_set_type_attr_same)
  have 3: "\<forall>e'. e' \<noteq> e \<longrightarrow> get_particle (self\<lparr>graph := Some ?L'\<rparr>) e' = get_particle self e'"
    using assms(1) by (simp add: get_particle_def get_edge_type_def map_of_set_type_attr_other)
  have 4: "lg_edges ?L' = lg_edges L" "map fst (lg_nodes ?L') = map fst (lg_nodes L)"
    by (simp_all add: map_fst_set_type_attr)
  from neighbors_cong [OF 4] have 5: "\<forall>e'. neighbors ?L' e' = neighbors L e'" by simp
  from 1 2 3 4 5 show ?thesis by blast
qed

theorem flip_isolated_witness:
  "graph path3_index = Some path3_line_graph \<and> get_particle path3_index (0, 2) = Inr 0
   \<and> (\<exists>L'. set_particle path3_index (0, 2) (PyInt 1) = (path3_index\<lparr>graph := Some L'\<rparr>, Inr ())
        \<and> get_particle (path3_index\<lparr>graph := Some L'\<rparr>) (0, 2) = Inr 1
        \<and> (\<forall>e'. e' \<noteq> (0, 2) \<longrightarrow>
               get_particle (path3_index\<lparr>graph := Some L'\<rparr>) e' = get_particle path3_index e')
        \<and> lg_edges L' = lg_edges path3_line_graph
        \<and> map fst (lg_nodes L') = map fst (lg_nodes path3_line_graph)
        \<and> (\<forall>e'. neighbors L' e' = neighbors path3_line_graph e'))"
proof -
  have g: "graph path3_index = Some path3_line_graph"
    by (simp add: path3_index_def)
  have t: "get_particle path3_index (0, 2) = Inr 0"
    by (simp add: path3_index_def path3_line_graph_def get_particle_def get_edge_type_def)
  from g t flip_isolated [OF g t] show ?thesis by blast
qed

section \<open>Rejected source graphs\<close>



section \<open>The dimension of the initial graph\<close>

text \<open>
  Claim C8 has \<open>get_initial_dim\<close> return \<open>k\<close> on the index of the complete graph on
  \<open>k\<close> nodes. At \<open>k = 3\<close> the line graph is a triangle, which is the line graph of the
  complete graph on 3 nodes and of the star with 3 leaves as well; the library's
  inversion starts from the triangle as one cell and returns the star, which has 4 nodes.
\<close>

theorem get_initial_dim_3:
  "\<exists>w. GraphWrapper_init (Some 3) None = Inr w \<and> get_initial_dim w = Inr 4"
  by (simp add: GraphWrapper_init_def complete_graph_def line_graph_def edges_at_def
      sorted_node_def sorted_edge_def tuple_le_def set_node_attributes_scalar_def
      get_initial_dim_def inverse_line_graph_def triangles_def adjacent_def adj_in_def
      remove_edges_from_def is_complete_def Let_def upt_rec)

section \<open>Construction from a node count\<close>




section \<open>The active neighbourhood\<close>



section \<open>Construction from a source graph\<close>



end
